theory Spec2Isabelle
  imports Main "HOL-Library.Word" "HOL-Library.Sublist"
begin

section \<open>Python values, exceptions and strings\<close>

text \<open>
  The two modules verified here are \<^verbatim>\<open>utils/adb_manager.py\<close> (class \<^verbatim>\<open>ADBManager\<close>)
  and \<^verbatim>\<open>utils/device_manager.py\<close> (class \<^verbatim>\<open>DeviceManager\<close>).  A Python \<^verbatim>\<open>str\<close> is
  modelled as a \<^typ>\<open>string\<close>; the non-ASCII literals of the source are written as their
  UTF-8 bytes.  A \<^verbatim>\<open>bytes\<close> object is a list of 8-bit words.
\<close>

type_synonym byte = "8 word"

datatype pyval = PNone | PBool bool | PInt int | PStr string | PBytes "byte list"

text \<open>
  Exceptions carry their class and the text \<^verbatim>\<open>str(e)\<close>.  \<^verbatim>\<open>KeyboardInterrupt\<close> and
  \<^verbatim>\<open>SystemExit\<close> derive from \<^verbatim>\<open>BaseException\<close> only, so a handler
  \<^verbatim>\<open>except Exception\<close> does not catch them.
\<close>

datatype exn_class =
    TimeoutExpired | OSError | FileNotFoundError | UnicodeDecodeError | KeyError
  | RuntimeError | KeyboardInterrupt | SystemExit

datatype exn = Raised exn_class string

fun is_Exception :: "exn \<Rightarrow> bool" where
  "is_Exception (Raised KeyboardInterrupt _) = False"
| "is_Exception (Raised SystemExit _) = False"
| "is_Exception (Raised _ _) = True"

fun is_TimeoutExpired :: "exn \<Rightarrow> bool" where
  "is_TimeoutExpired (Raised TimeoutExpired _) = True"
| "is_TimeoutExpired (Raised _ _) = False"

fun str_exn :: "exn \<Rightarrow> string" where
  "str_exn (Raised _ msg) = msg"

text \<open>\<^verbatim>\<open>str(n)\<close> for a Python integer: the decimal digits, with a minus sign.\<close>

definition digit_char :: "nat \<Rightarrow> char" where
  "digit_char d = char_of (48 + d)"

fun str_nat :: "nat \<Rightarrow> string" where
  "str_nat n = (if n < 10 then [digit_char n] else str_nat (n div 10) @ [digit_char (n mod 10)])"

declare str_nat.simps [simp del]

definition str_int :: "int \<Rightarrow> string" where
  "str_int i = (if i < 0 then CHR ''-'' # str_nat (nat (- i)) else str_nat (nat i))"

text \<open>\<^verbatim>\<open>x or d\<close>: the default \<open>d\<close> when \<open>x\<close> is falsy.\<close>

fun py_or :: "pyval \<Rightarrow> pyval \<Rightarrow> pyval" where
  "py_or PNone d = d"
| "py_or (PBool b) d = (if b then PBool b else d)"
| "py_or (PInt i) d = (if i = 0 then d else PInt i)"
| "py_or (PStr s) d = (if s = [] then d else PStr s)"
| "py_or (PBytes bs) d = (if bs = [] then d else PBytes bs)"

section \<open>Binary resolution: \<^verbatim>\<open>ADBManager.setup_builtin_adb\<close>\<close>

text \<open>
  A directory is the map from the names of the regular files in it to their contents; the
  contents are of any type \<open>'c\<close>, and serve to tell where a staged file came from.  The
  host is what the resolver reads from its environment.  A candidate directory is
  \<open>None\<close> when it does not exist.
\<close>

type_synonym 'c dir = "string \<rightharpoonup> 'c"

record 'c host =
  frozen :: bool                  \<comment> \<open>\<^verbatim>\<open>getattr(sys, 'frozen', False)\<close>\<close>
  meipass_adb :: "'c dir option"  \<comment> \<open>\<^verbatim>\<open>sys._MEIPASS/adb\<close>; \<open>None\<close> also when \<^verbatim>\<open>sys\<close> has no \<^verbatim>\<open>_MEIPASS\<close>\<close>
  e_drive_adb :: "'c dir option"  \<comment> \<open>\<^verbatim>\<open>E:/ADB\<close>\<close>
  cwd_adb :: "'c dir option"      \<comment> \<open>\<^verbatim>\<open>Path.cwd() / 'adb'\<close>\<close>
  exe_dir_adb :: "'c dir option"  \<comment> \<open>\<^verbatim>\<open>Path(sys.executable).parent / 'adb'\<close>\<close>
  which_adb :: "'c option"        \<comment> \<open>the file \<^verbatim>\<open>shutil.which('adb')\<close> finds on the search path\<close>
  environ_PATH :: "string option" \<comment> \<open>\<^verbatim>\<open>os.environ['PATH']\<close>\<close>
  pathsep :: string               \<comment> \<open>\<^verbatim>\<open>os.pathsep\<close>\<close>

text \<open>
  The manager object.  \<open>temp_files\<close> is the content of the directory \<open>temp_dir\<close>, which
  \<^verbatim>\<open>tempfile.mkdtemp\<close> creates empty.  Failures of the file system itself (a full disk,
  an unreadable file) are not modelled; the exceptions of the model are the ones the
  source raises and \<^verbatim>\<open>FileNotFoundError\<close> from copying a file that is not there.
\<close>

record 'c adb_manager =
  builtin_adb_path :: "string option"
  temp_dir :: "string option"
  temp_files :: "'c dir"

definition msg_e_drive_missing :: string where
  "msg_e_drive_missing =
     [CHR 0x45, CHR 0xE7, CHR 0x9B, CHR 0x98, CHR 0x41, CHR 0x44, CHR 0x42, CHR 0xE7,
      CHR 0x9B, CHR 0xAE, CHR 0xE5, CHR 0xBD, CHR 0x95, CHR 0xE4, CHR 0xB8, CHR 0x8D,
      CHR 0xE5, CHR 0xAD, CHR 0x98, CHR 0xE5, CHR 0x9C, CHR 0xA8]"

definition msg_all_methods_failed :: string where
  "msg_all_methods_failed =
     [CHR 0xE6, CHR 0x89, CHR 0x80, CHR 0xE6, CHR 0x9C, CHR 0x89, CHR 0x41, CHR 0x44,
      CHR 0x42, CHR 0xE6, CHR 0x9F, CHR 0xA5, CHR 0xE6, CHR 0x89, CHR 0xBE, CHR 0xE6,
      CHR 0x96, CHR 0xB9, CHR 0xE6, CHR 0xB3, CHR 0x95, CHR 0xE9, CHR 0x83, CHR 0xBD,
      CHR 0xE5, CHR 0xA4, CHR 0xB1, CHR 0xE8, CHR 0xB4, CHR 0xA5]"

definition msg_adb_not_usable :: string where
  "msg_adb_not_usable =
     [CHR 0x41, CHR 0x44, CHR 0x42, CHR 0xE5, CHR 0xB7, CHR 0xA5, CHR 0xE5, CHR 0x85,
      CHR 0xB7, CHR 0xE6, CHR 0x9C, CHR 0xAA, CHR 0xE6, CHR 0x89, CHR 0xBE, CHR 0xE5,
      CHR 0x88, CHR 0xB0, CHR 0xE6, CHR 0x88, CHR 0x96, CHR 0xE4, CHR 0xB8, CHR 0x8D,
      CHR 0xE5, CHR 0x8F, CHR 0xAF, CHR 0xE7, CHR 0x94, CHR 0xA8]"

text \<open>\<^verbatim>\<open>Path(self.temp_dir) / "adb.exe"\<close> and whether that file exists.\<close>

definition temp_adb_path :: "'c adb_manager \<Rightarrow> string" where
  "temp_adb_path self = (case temp_dir self of None \<Rightarrow> ''None'' | Some t \<Rightarrow> t) @ ''/adb.exe''"

definition temp_adb_exists :: "'c adb_manager \<Rightarrow> bool" where
  "temp_adb_exists self = (temp_files self ''adb.exe'' \<noteq> None)"

text \<open>\<^verbatim>\<open>shutil.copy2(src, temp_adb_path)\<close> for a source file with content \<open>c\<close>.\<close>

definition copy2_to_temp_adb :: "'c \<Rightarrow> 'c adb_manager \<Rightarrow> 'c adb_manager" where
  "copy2_to_temp_adb c self = self\<lparr>temp_files := (temp_files self)(''adb.exe'' \<mapsto> c)\<rparr>"

text \<open>Every regular file of a directory is copied into the temporary directory.\<close>

definition copy_all_to_temp :: "'c dir \<Rightarrow> 'c adb_manager \<Rightarrow> 'c adb_manager" where
  "copy_all_to_temp d self = self\<lparr>temp_files := temp_files self ++ d\<rparr>"

definition verify_adb_exists :: "'c adb_manager \<Rightarrow> bool" where
  "verify_adb_exists self = (builtin_adb_path self \<noteq> None \<and> temp_adb_exists self)"

definition copy_adb_from_e_drive :: "'c host \<Rightarrow> 'c adb_manager \<Rightarrow> exn + 'c adb_manager" where
  "copy_adb_from_e_drive h self =
     (case e_drive_adb h of
        None \<Rightarrow> Inl (Raised FileNotFoundError msg_e_drive_missing)
      | Some d \<Rightarrow>
          (let self1 = copy_all_to_temp d self
           in Inr (self1\<lparr>builtin_adb_path := Some (temp_adb_path self1)\<rparr>)))"

text \<open>
  \<^verbatim>\<open>_try_find_adb_alternative\<close> in its three steps.  Every exception inside it is
  caught and turns into the result \<^verbatim>\<open>False\<close>: the final \<^verbatim>\<open>raise\<close>, and the
  \<^verbatim>\<open>FileNotFoundError\<close> of \<^verbatim>\<open>copy2\<close> when a candidate directory exists without an
  \<^verbatim>\<open>adb.exe\<close> in it, which ends the search before the later steps.
\<close>

definition find_on_search_path :: "'c host \<Rightarrow> 'c adb_manager \<Rightarrow> bool \<times> 'c adb_manager" where
  "find_on_search_path h self =
     (case which_adb h of
        None \<Rightarrow> (False, self)
      | Some c \<Rightarrow>
          (let self1 = copy2_to_temp_adb c self
           in if temp_adb_exists self1
              then (True, self1\<lparr>builtin_adb_path := Some (temp_adb_path self1)\<rparr>)
              else (False, self1)))"

definition find_in_exe_dir :: "'c host \<Rightarrow> 'c adb_manager \<Rightarrow> bool \<times> 'c adb_manager" where
  "find_in_exe_dir h self =
     (case exe_dir_adb h of
        None \<Rightarrow> find_on_search_path h self
      | Some d \<Rightarrow>
          (case d ''adb.exe'' of
             None \<Rightarrow> (False, self)
           | Some c \<Rightarrow>
               (let self1 = copy2_to_temp_adb c self
                in if temp_adb_exists self1
                   then (True, self1\<lparr>builtin_adb_path := Some (temp_adb_path self1)\<rparr>)
                   else find_on_search_path h self1)))"

definition try_find_adb_alternative :: "'c host \<Rightarrow> 'c adb_manager \<Rightarrow> bool \<times> 'c adb_manager" where
  "try_find_adb_alternative h self =
     (case cwd_adb h of
        None \<Rightarrow> find_in_exe_dir h self
      | Some d \<Rightarrow>
          (case d ''adb.exe'' of
             None \<Rightarrow> (False, self)
           | Some c \<Rightarrow>
               (let self1 = copy2_to_temp_adb c self
                in if temp_adb_exists self1
                   then (True, self1\<lparr>builtin_adb_path := Some (temp_adb_path self1)\<rparr>)
                   else find_in_exe_dir h self1)))"

text \<open>
  \<^verbatim>\<open>_extract_adb_from_resources\<close>.  Its second method looks for a subdirectory
  \<^verbatim>\<open>adb\<close> of the temporary directory; that directory holds regular files only, so the
  method copies nothing.
\<close>

definition extract_adb_from_resources :: "'c host \<Rightarrow> 'c adb_manager \<Rightarrow> bool \<times> 'c adb_manager" where
  "extract_adb_from_resources h self =
     (let self1 = (case meipass_adb h of None \<Rightarrow> self | Some d \<Rightarrow> copy_all_to_temp d self)
      in if temp_adb_exists self1
         then (True, self1\<lparr>builtin_adb_path := Some (temp_adb_path self1)\<rparr>)
         else try_find_adb_alternative h self1)"

text \<open>
  \<^verbatim>\<open>setup_builtin_adb\<close>, given the name \<open>tmp\<close> of the fresh directory.  It returns the
  manager and the new value of \<^verbatim>\<open>os.environ['PATH']\<close>, or the exception it re-raises.
\<close>

definition setup_builtin_adb :: "'c host \<Rightarrow> string \<Rightarrow> exn + ('c adb_manager \<times> string)" where
  "setup_builtin_adb h tmp =
     (let self0 = \<lparr>builtin_adb_path = None, temp_dir = Some tmp, temp_files = Map.empty\<rparr>;
          r1 = (if frozen h then
                  (case extract_adb_from_resources h self0 of
                     (success, self1) \<Rightarrow>
                       if \<not> success then copy_adb_from_e_drive h self1 else Inr self1)
                else copy_adb_from_e_drive h self0)
      in case r1 of
           Inl e \<Rightarrow> Inl e
         | Inr self1 \<Rightarrow>
             (let r2 = (if builtin_adb_path self1 = None \<or> \<not> temp_adb_exists self1 then
                          (case try_find_adb_alternative h self1 of
                             (found, self2) \<Rightarrow>
                               if \<not> found then Inl (Raised FileNotFoundError msg_all_methods_failed)
                               else Inr self2)
                        else Inr self1)
              in case r2 of
                   Inl e \<Rightarrow> Inl e
                 | Inr self2 \<Rightarrow>
                     if \<not> verify_adb_exists self2 then
                       Inl (Raised FileNotFoundError msg_adb_not_usable)
                     else
                       (case environ_PATH h of
                          None \<Rightarrow> Inl (Raised KeyError ([CHR 0x27] @ ''PATH'' @ [CHR 0x27]))
                        | Some p \<Rightarrow> Inr (self2, tmp @ pathsep h @ p))))"




section \<open>The child process and \<^verbatim>\<open>subprocess.run\<close>\<close>

text \<open>
  What the operating system does with a command line is the environment of
  \<^verbatim>\<open>run_adb_command\<close>: the spawn fails (binary missing, permission denied), the child
  is still running when the timeout expires, or it exits in time with an exit code and
  the bytes it wrote to its two streams.
\<close>

datatype child =
    SpawnFails string
  | Hangs
  | Exits int "byte list" "byte list"

text \<open>What has become of the child when \<^verbatim>\<open>subprocess.run\<close> is left.\<close>

datatype fate = NeverStarted | Killed | Exited int

record completed_process =
  returncode :: int
  stdout :: pyval
  stderr :: pyval

datatype platform = Posix | Windows

text \<open>
  The locale's codec with the error handler \<^verbatim>\<open>strict\<close>, which is what
  \<^verbatim>\<open>subprocess.run(cmd, capture_output=True, text=text, timeout=timeout)\<close> uses when
  no \<^verbatim>\<open>encoding\<close> or \<^verbatim>\<open>errors\<close> keyword is passed: \<open>Inl msg\<close> is a
  \<^verbatim>\<open>UnicodeDecodeError\<close> with that text.  No caller in the repository passes further
  keyword arguments, and the model takes \<^verbatim>\<open>kwargs\<close> to be empty.
\<close>

type_synonym codec = "byte list \<Rightarrow> string + string"

text \<open>Text mode replaces \<^verbatim>\<open>\r\n\<close> and \<^verbatim>\<open>\r\<close> by \<^verbatim>\<open>\n\<close> after decoding.\<close>

fun translate_newlines :: "string \<Rightarrow> string" where
  "translate_newlines [] = []"
| "translate_newlines [c] = (if c = CHR 0x0D then [CHR 0x0A] else [c])"
| "translate_newlines (c # d # cs) =
     (if c = CHR 0x0D \<and> d = CHR 0x0A then CHR 0x0A # translate_newlines cs
      else if c = CHR 0x0D then CHR 0x0A # translate_newlines (d # cs)
      else c # translate_newlines (d # cs))"

definition read_text :: "codec \<Rightarrow> byte list \<Rightarrow> string + string" where
  "read_text dec bs = (case dec bs of Inl msg \<Rightarrow> Inl msg | Inr s \<Rightarrow> Inr (translate_newlines s))"

text \<open>
  \<^verbatim>\<open>subprocess.run\<close> as the source calls it.  A spawn failure raises \<^verbatim>\<open>OSError\<close>
  from \<^verbatim>\<open>Popen\<close>.  On timeout the child is killed and waited for, then
  \<^verbatim>\<open>TimeoutExpired\<close> is raised; its text is
  \<^verbatim>\<open>Command '...' timed out after N seconds\<close>, which the source only logs, and the model
  leaves it empty.  In binary mode the bytes are returned as they are.  In text mode the
  two platforms differ when a stream does not decode: on POSIX \<^verbatim>\<open>communicate\<close>
  decodes stdout, then stderr, in the calling thread and the \<^verbatim>\<open>UnicodeDecodeError\<close>
  leaves \<^verbatim>\<open>run\<close>; on Windows each stream is read by a thread of its own, a failing
  thread leaves its buffer empty, and the stream is reported as \<^verbatim>\<open>None\<close>.
\<close>

definition subprocess_run ::
  "platform \<Rightarrow> codec \<Rightarrow> (string list \<Rightarrow> child) \<Rightarrow> string list \<Rightarrow> bool
     \<Rightarrow> (exn + completed_process) \<times> fate" where
  "subprocess_run pf dec os cmd text =
     (case os cmd of
        SpawnFails msg \<Rightarrow> (Inl (Raised OSError msg), NeverStarted)
      | Hangs \<Rightarrow> (Inl (Raised TimeoutExpired []), Killed)
      | Exits rc out err \<Rightarrow>
          if \<not> text then
            (Inr \<lparr>returncode = rc, stdout = PBytes out, stderr = PBytes err\<rparr>, Exited rc)
          else
            (case pf of
               Posix \<Rightarrow>
                 (case read_text dec out of
                    Inl msg \<Rightarrow> (Inl (Raised UnicodeDecodeError msg), Exited rc)
                  | Inr so \<Rightarrow>
                      (case read_text dec err of
                         Inl msg \<Rightarrow> (Inl (Raised UnicodeDecodeError msg), Exited rc)
                       | Inr se \<Rightarrow>
                           (Inr \<lparr>returncode = rc, stdout = PStr so, stderr = PStr se\<rparr>,
                            Exited rc)))
             | Windows \<Rightarrow>
                 (Inr \<lparr>returncode = rc,
                       stdout = (case read_text dec out of Inl _ \<Rightarrow> PNone | Inr so \<Rightarrow> PStr so),
                       stderr = (case read_text dec err of Inl _ \<Rightarrow> PNone | Inr se \<Rightarrow> PStr se)\<rparr>,
                  Exited rc)))"

section \<open>\<^verbatim>\<open>ADBManager.run_adb_command\<close>\<close>

text \<open>
  The result is a Python dict with string keys.  The \<^verbatim>\<open>print\<close> and logger calls of
  the function write diagnostics only; they are modelled as succeeding and are left out.
  The timeout is an integer number of seconds, as at every call site.
\<close>

type_synonym result = "string \<rightharpoonup> pyval"

definition timeout_prefix :: string where
  "timeout_prefix =
     [CHR 0xE5, CHR 0x91, CHR 0xBD, CHR 0xE4, CHR 0xBB, CHR 0xA4, CHR 0xE8, CHR 0xB6,
      CHR 0x85, CHR 0xE6, CHR 0x97, CHR 0xB6, CHR 0x3A, CHR 0x20]"

definition timeout_suffix :: string where
  "timeout_suffix = [CHR 0xE7, CHR 0xA7, CHR 0x92]"

text \<open>\<^verbatim>\<open>str(self.builtin_adb_path)\<close>, which is \<^verbatim>\<open>'None'\<close> for \<^verbatim>\<open>None\<close>.\<close>

definition str_path :: "string option \<Rightarrow> string" where
  "str_path p = (case p of None \<Rightarrow> ''None'' | Some s \<Rightarrow> s)"

definition run_adb_command ::
  "platform \<Rightarrow> codec \<Rightarrow> (string list \<Rightarrow> child) \<Rightarrow> 'c adb_manager \<Rightarrow> string list \<Rightarrow> int \<Rightarrow> bool
     \<Rightarrow> (exn + result) \<times> fate" where
  "run_adb_command pf dec os self args timeout text =
     (let cmd = [str_path (builtin_adb_path self)] @ args;
          (r, ft) = subprocess_run pf dec os cmd text
      in (case r of
            Inr cp \<Rightarrow>
              (let so = py_or (stdout cp) (if text then PStr [] else PBytes []);
                   se = py_or (stderr cp) (if text then PStr [] else PBytes [])
               in Inr [''success'' \<mapsto> PBool (returncode cp = 0),
                       ''returncode'' \<mapsto> PInt (returncode cp),
                       ''stdout'' \<mapsto> so,
                       ''stderr'' \<mapsto> se])
          | Inl e \<Rightarrow>
              if is_TimeoutExpired e then
                Inr [''success'' \<mapsto> PBool False,
                     ''error'' \<mapsto> PStr (timeout_prefix @ str_int timeout @ timeout_suffix)]
              else if is_Exception e then
                Inr [''success'' \<mapsto> PBool False, ''error'' \<mapsto> PStr (str_exn e)]
              else Inl e,
          ft))"

text \<open>Reading the outcome of a call: whether it returned a dict, and a field of that dict.\<close>

definition returns :: "(exn + result) \<times> fate \<Rightarrow> bool" where
  "returns R = (case fst R of Inl e \<Rightarrow> False | Inr r \<Rightarrow> True)"

definition field :: "(exn + result) \<times> fate \<Rightarrow> string \<Rightarrow> pyval option" where
  "field R k = (case fst R of Inl e \<Rightarrow> None | Inr r \<Rightarrow> r k)"

definition result_keys :: "(exn + result) \<times> fate \<Rightarrow> string set" where
  "result_keys R = (case fst R of Inl e \<Rightarrow> {} | Inr r \<Rightarrow> dom r)"

text \<open>
  An example codec for closed evaluations: 7-bit ASCII, the codec of the C locale.  The
  byte \<^verbatim>\<open>0xff\<close> used below is invalid in UTF-8 and GBK as well.
\<close>

definition hex_digit :: "nat \<Rightarrow> char" where
  "hex_digit d = (if d < 10 then char_of (48 + d) else char_of (87 + d))"

fun ascii_scan :: "nat \<Rightarrow> byte list \<Rightarrow> string + string" where
  "ascii_scan i [] = Inr []"
| "ascii_scan i (b # bs) =
     (if unat b < 128 then
        (case ascii_scan (Suc i) bs of Inl msg \<Rightarrow> Inl msg | Inr s \<Rightarrow> Inr (char_of (unat b) # s))
      else Inl ([CHR 0x27] @ ''ascii'' @ [CHR 0x27] @ '' codec can'' @ [CHR 0x27]
                @ ''t decode byte 0x''
                @ [hex_digit (unat b div 16), hex_digit (unat b mod 16)]
                @ '' in position '' @ str_nat i @ '': ordinal not in range(128)''))"

definition ascii_strict :: codec where
  "ascii_strict bs = ascii_scan 0 bs"


text \<open>A manager with a staged binary, for closed evaluations.\<close>

definition example_manager :: "nat adb_manager" where
  "example_manager =
     \<lparr>builtin_adb_path = Some ''/tmp/adb_tv_tool_x/adb.exe'',
      temp_dir = Some ''/tmp/adb_tv_tool_x'',
      temp_files = [''adb.exe'' \<mapsto> 1]\<rparr>"

section \<open>The session registry: \<^verbatim>\<open>DeviceManager\<close>\<close>

record device_info =
  serial :: string
  name :: "string option"
  model :: "string option"
  status :: string

text \<open>
  The dataclass constructor \<^verbatim>\<open>DeviceInfo(serial, name=None, model=None, status="unknown")\<close>;
  an omitted \<^verbatim>\<open>status\<close> argument is \<open>None\<close>.
\<close>

definition DeviceInfo :: "string \<Rightarrow> string option \<Rightarrow> string option \<Rightarrow> string option \<Rightarrow> device_info" where
  "DeviceInfo s n m st =
     \<lparr>serial = s, name = n, model = m,
      status = (case st of None \<Rightarrow> ''unknown'' | Some x \<Rightarrow> x)\<rparr>"

text \<open>
  A listener is a callable kept in the list \<^verbatim>\<open>_device_listeners\<close>.  It is modelled by
  its identity (a number) and by what calling it does: it acts on a world \<open>'w\<close> outside the
  registry and returns or raises.  Listeners that call back into the registry, or change
  the listener list while a round is running, are outside the model.
\<close>

type_synonym lid = nat

datatype outcome = Returns | Raises exn

type_synonym 'w listeners = "lid \<Rightarrow> device_info option \<Rightarrow> 'w \<Rightarrow> outcome \<times> 'w"

datatype level = DEBUG | INFO | ERROR

record device_manager =
  current_device :: "device_info option"
  device_listeners :: "lid list"
  logged :: "(level \<times> string) list"

definition msg_set_device :: string where
  "msg_set_device =
     [CHR 0xE8, CHR 0xAE, CHR 0xBE, CHR 0xE7, CHR 0xBD, CHR 0xAE, CHR 0xE5, CHR 0xBD,
      CHR 0x93, CHR 0xE5, CHR 0x89, CHR 0x8D, CHR 0xE8, CHR 0xAE, CHR 0xBE, CHR 0xE5,
      CHR 0xA4, CHR 0x87, CHR 0x3A, CHR 0x20]"


definition msg_notify_failed :: string where
  "msg_notify_failed =
     [CHR 0xE9, CHR 0x80, CHR 0x9A, CHR 0xE7, CHR 0x9F, CHR 0xA5, CHR 0xE7, CHR 0x9B,
      CHR 0x91, CHR 0xE5, CHR 0x90, CHR 0xAC, CHR 0xE5, CHR 0x99, CHR 0xA8, CHR 0xE5,
      CHR 0xA4, CHR 0xB1, CHR 0xE8, CHR 0xB4, CHR 0xA5, CHR 0x3A, CHR 0x20]"

definition msg_add_listener :: string where
  "msg_add_listener =
     [CHR 0xE6, CHR 0xB7, CHR 0xBB, CHR 0xE5, CHR 0x8A, CHR 0xA0, CHR 0xE8, CHR 0xAE,
      CHR 0xBE, CHR 0xE5, CHR 0xA4, CHR 0x87, CHR 0xE7, CHR 0x9B, CHR 0x91, CHR 0xE5,
      CHR 0x90, CHR 0xAC, CHR 0xE5, CHR 0x99, CHR 0xA8, CHR 0x3A, CHR 0x20]"

definition msg_remove_listener :: string where
  "msg_remove_listener =
     [CHR 0xE7, CHR 0xA7, CHR 0xBB, CHR 0xE9, CHR 0x99, CHR 0xA4, CHR 0xE8, CHR 0xAE,
      CHR 0xBE, CHR 0xE5, CHR 0xA4, CHR 0x87, CHR 0xE7, CHR 0x9B, CHR 0x91, CHR 0xE5,
      CHR 0x90, CHR 0xAC, CHR 0xE5, CHR 0x99, CHR 0xA8, CHR 0x3A, CHR 0x20]"

definition msg_count_suffix :: string where
  "msg_count_suffix = [CHR 0x20, CHR 0xE4, CHR 0xB8, CHR 0xAA]"

text \<open>
  One call made during a notification round: the listener, the argument it was given and
  how the call ended.
\<close>

type_synonym call = "lid \<times> device_info option \<times> outcome"

text \<open>
  The loop \<^verbatim>\<open>for listener in self._device_listeners: try: listener(d) except Exception ...\<close>.
  It returns the exception that leaves the loop, if any, the manager with its log, the
  world, and the calls made.
\<close>

fun notify ::
  "'w listeners \<Rightarrow> device_info option \<Rightarrow> lid list \<Rightarrow> device_manager \<Rightarrow> 'w
     \<Rightarrow> exn option \<times> device_manager \<times> 'w \<times> call list" where
  "notify run d [] self w = (None, self, w, [])"
| "notify run d (l # ls) self w =
     (case run l d w of
        (Returns, w1) \<Rightarrow>
          (case notify run d ls self w1 of
             (x, self2, w2, cs) \<Rightarrow> (x, self2, w2, (l, d, Returns) # cs))
      | (Raises e, w1) \<Rightarrow>
          if is_Exception e then
            (case notify run d ls
                    (self\<lparr>logged := logged self @ [(ERROR, msg_notify_failed @ str_exn e)]\<rparr>) w1 of
               (x, self2, w2, cs) \<Rightarrow> (x, self2, w2, (l, d, Raises e) # cs))
          else (Some e, self, w1, [(l, d, Raises e)]))"

definition set_current_device ::
  "'w listeners \<Rightarrow> device_manager \<Rightarrow> 'w \<Rightarrow> device_info
     \<Rightarrow> exn option \<times> device_manager \<times> 'w \<times> call list" where
  "set_current_device run self w device_info =
     (let self1 = self\<lparr>current_device := Some device_info,
                       logged := logged self @ [(INFO, msg_set_device @ serial device_info)]\<rparr>
      in notify run (Some device_info) (device_listeners self1) self1 w)"

definition get_current_device :: "device_manager \<Rightarrow> device_info option" where
  "get_current_device self = current_device self"


definition add_listener :: "lid \<Rightarrow> device_manager \<Rightarrow> device_manager" where
  "add_listener l self =
     (if l \<notin> set (device_listeners self) then
        (let ls = device_listeners self @ [l]
         in self\<lparr>device_listeners := ls,
                 logged := logged self
                   @ [(DEBUG, msg_add_listener @ str_nat (length ls) @ msg_count_suffix)]\<rparr>)
      else self)"

definition remove_listener :: "lid \<Rightarrow> device_manager \<Rightarrow> device_manager" where
  "remove_listener l self =
     (if l \<in> set (device_listeners self) then
        (let ls = remove1 l (device_listeners self)
         in self\<lparr>device_listeners := ls,
                 logged := logged self
                   @ [(DEBUG, msg_remove_listener @ str_nat (length ls) @ msg_count_suffix)]\<rparr>)
      else self)"

text \<open>
  The module-level function
  \<^verbatim>\<open>set_current_device(serial, name=None, model=None, status="device")\<close> on the global
  manager; an omitted \<^verbatim>\<open>status\<close> argument is \<open>None\<close>.
\<close>

definition module_set_current_device ::
  "'w listeners \<Rightarrow> device_manager \<Rightarrow> 'w \<Rightarrow> string \<Rightarrow> string option \<Rightarrow> string option
     \<Rightarrow> string option \<Rightarrow> exn option \<times> device_manager \<times> 'w \<times> call list" where
  "module_set_current_device run self w serial_arg name_arg model_arg status_arg =
     (let device_info =
            DeviceInfo serial_arg name_arg model_arg
              (Some (case status_arg of None \<Rightarrow> ''device'' | Some st \<Rightarrow> st))
      in set_current_device run self w device_info)"



fun failure_log :: "call list \<Rightarrow> (level \<times> string) list" where
  "failure_log [] = []"
| "failure_log ((l, d, Returns) # cs) = failure_log cs"
| "failure_log ((l, d, Raises e) # cs) =
     (if is_Exception e then [(ERROR, msg_notify_failed @ str_exn e)] else []) @ failure_log cs"



definition example_registry :: device_manager where
  "example_registry = \<lparr>current_device = None, device_listeners = [0, 1], logged = []\<rparr>"

text \<open>
  Listener 0 raises \<open>e\<close> at every call and listener 1 returns; the world counts the calls
  that were made.
\<close>

definition first_raises :: "exn \<Rightarrow> nat listeners" where
  "first_raises e l d w = (if l = 0 then (Raises e, Suc w) else (Returns, Suc w))"

text \<open>The status values the specification enumerates.\<close>

definition spec_status_values :: "string set" where
  "spec_status_values = {''unknown'', ''connecting'', ''connected'', ''disconnected''}"

section \<open>Properties of the binary resolution\<close>











text \<open>
  Run from source, the setup re-raises the \<^verbatim>\<open>FileNotFoundError\<close> of
  \<^verbatim>\<open>_copy_adb_from_e_drive\<close> when \<^verbatim>\<open>E:/ADB\<close> does not exist, whatever the other
  locations hold.
\<close>

lemma setup_raises_without_e_drive:
  "\<not> frozen h \<Longrightarrow> e_drive_adb h = None \<Longrightarrow>
   setup_builtin_adb h tmp = Inl (Raised FileNotFoundError msg_e_drive_missing)"
  by (simp add: setup_builtin_adb_def copy_adb_from_e_drive_def)




section \<open>Properties of \<^verbatim>\<open>run_adb_command\<close>\<close>

text \<open>The result of the call, one lemma for each way the child and the decoding can go.\<close>

lemma run_Hangs:
  "os (str_path (builtin_adb_path self) # args) = Hangs \<Longrightarrow>
   run_adb_command pf dec os self args timeout text =
     (Inr [''success'' \<mapsto> PBool False,
           ''error'' \<mapsto> PStr (timeout_prefix @ str_int timeout @ timeout_suffix)], Killed)"
  by (simp add: run_adb_command_def subprocess_run_def)









lemma str_int_5: "str_int 5 = ''5''" by code_simp

text \<open>
  Claim C2.  When the child does not exit within the timeout, it is killed, and the call
  returns a dict with \<^verbatim>\<open>success\<close> false, an \<^verbatim>\<open>error\<close> text that contains the
  timeout (the number of seconds in decimal) and no \<^verbatim>\<open>returncode\<close>.
\<close>

theorem run_adb_command_timeout:
  assumes "os (str_path (builtin_adb_path self) # args) = Hangs"
  shows "run_adb_command pf dec os self args timeout text =
           (Inr [''success'' \<mapsto> PBool False,
                 ''error'' \<mapsto> PStr (timeout_prefix @ str_int timeout @ timeout_suffix)], Killed)
         \<and> sublist (str_int timeout) (timeout_prefix @ str_int timeout @ timeout_suffix)
         \<and> field (run_adb_command pf dec os self args timeout text) ''success'' = Some (PBool False)
         \<and> field (run_adb_command pf dec os self args timeout text) ''returncode'' = None"
  using assms by (simp add: run_Hangs field_def)

text \<open>The same at a timeout of 5 seconds.\<close>

theorem run_adb_command_timeout_witness:
  "run_adb_command Windows ascii_strict (\<lambda>cmd. Hangs) example_manager [''devices''] 5 True =
     (Inr [''success'' \<mapsto> PBool False,
           ''error'' \<mapsto> PStr (timeout_prefix @ ''5'' @ timeout_suffix)], Killed)
   \<and> sublist ''5'' (timeout_prefix @ ''5'' @ timeout_suffix)"
  using run_adb_command_timeout [of "\<lambda>cmd. Hangs" example_manager "[''devices'']" Windows ascii_strict 5 True]
  by (simp add: str_int_5)






text \<open>Whatever leaves \<^verbatim>\<open>subprocess.run\<close> in the model is caught by one of the two handlers.\<close>

lemma subprocess_run_raises_Exception:
  "fst (subprocess_run pf dec os cmd text) = Inl e \<Longrightarrow>
   is_Exception e \<and> (is_TimeoutExpired e \<longleftrightarrow> os cmd = Hangs)"
  by (auto simp add: subprocess_run_def split: child.splits if_splits platform.splits sum.splits)

text \<open>
  Claim C9.  When \<^verbatim>\<open>subprocess.run\<close> raises (timeout, spawn failure or another
  exception while it runs), the returned dict has the keys \<^verbatim>\<open>success\<close> and
  \<^verbatim>\<open>error\<close> and no others: \<^verbatim>\<open>stdout\<close>, \<^verbatim>\<open>stderr\<close> and \<^verbatim>\<open>returncode\<close> are
  absent, not empty.
\<close>

theorem run_adb_command_failure_fields:
  assumes "fst (subprocess_run pf dec os (str_path (builtin_adb_path self) # args) text) = Inl e"
  shows "returns (run_adb_command pf dec os self args timeout text)
         \<and> result_keys (run_adb_command pf dec os self args timeout text) = {''success'', ''error''}
         \<and> field (run_adb_command pf dec os self args timeout text) ''stdout'' = None
         \<and> field (run_adb_command pf dec os self args timeout text) ''stderr'' = None
         \<and> field (run_adb_command pf dec os self args timeout text) ''returncode'' = None"
proof -
  obtain ft where sr: "subprocess_run pf dec os (str_path (builtin_adb_path self) # args) text = (Inl e, ft)"
    using assms by (cases "subprocess_run pf dec os (str_path (builtin_adb_path self) # args) text") simp
  have exc: "is_Exception e"
    using subprocess_run_raises_Exception [OF assms] by simp
  show ?thesis
  proof (cases "is_TimeoutExpired e")
    case True
    with sr show ?thesis
      by (auto simp add: run_adb_command_def returns_def result_keys_def field_def)
  next
    case False
    with sr exc show ?thesis
      by (auto simp add: run_adb_command_def returns_def result_keys_def field_def)
  qed
qed

text \<open>A permission failure and a timeout.\<close>

theorem run_adb_command_failure_fields_witness:
  "result_keys (run_adb_command Posix ascii_strict (\<lambda>cmd. SpawnFails ''[Errno 13] Permission denied'')
             example_manager [''devices''] 10 True) = {''success'', ''error''}
   \<and> result_keys (run_adb_command Posix ascii_strict (\<lambda>cmd. Hangs)
             example_manager [''devices''] 10 True) = {''success'', ''error''}"
  using run_adb_command_failure_fields [of Posix ascii_strict
          "\<lambda>cmd. SpawnFails ''[Errno 13] Permission denied''" example_manager "[''devices'']" True
          "Raised OSError ''[Errno 13] Permission denied''" 10]
        run_adb_command_failure_fields [of Posix ascii_strict
          "\<lambda>cmd. Hangs" example_manager "[''devices'']" True "Raised TimeoutExpired []" 10]
  by (auto simp add: subprocess_run_def)




section \<open>Properties of the session registry\<close>

text \<open>
  A round leaves the active device and the listener list as they are, and appends to the
  log one line for each call that raised an exception the handler catches.
\<close>

lemma notify_fixed:
  "notify run d ls self w = (x, self', w', cs) \<Longrightarrow>
   current_device self' = current_device self \<and> device_listeners self' = device_listeners self
   \<and> logged self' = logged self @ failure_log cs"
proof (induction ls arbitrary: self w x self' w' cs)
  case Nil
  then show ?case by simp
next
  case (Cons l ls)
  obtain oc w1 where r: "run l d w = (oc, w1)" by (cases "run l d w")
  show ?case
  proof (cases oc)
    case Returns
    obtain x2 s2 w2 cs2 where n: "notify run d ls self w1 = (x2, s2, w2, cs2)"
      by (cases "notify run d ls self w1") auto
    from Cons.prems r Returns n have eq: "x = x2" "self' = s2" "w' = w2" "cs = (l, d, Returns) # cs2"
      by simp_all
    from Cons.IH [OF n] eq show ?thesis by simp
  next
    case (Raises e)
    show ?thesis
    proof (cases "is_Exception e")
      case True
      let ?s1 = "self\<lparr>logged := logged self @ [(ERROR, msg_notify_failed @ str_exn e)]\<rparr>"
      obtain x2 s2 w2 cs2 where n: "notify run d ls ?s1 w1 = (x2, s2, w2, cs2)"
        by (cases "notify run d ls ?s1 w1") auto
      from Cons.prems r Raises True n
      have eq: "x = x2" "self' = s2" "w' = w2" "cs = (l, d, Raises e) # cs2"
        by simp_all
      from Cons.IH [OF n] eq True show ?thesis by simp
    next
      case False
      with Cons.prems r Raises show ?thesis by auto
    qed
  qed
qed










text \<open>
  Claim C10.  The module-level \<^verbatim>\<open>set_current_device(serial)\<close> without a
  \<^verbatim>\<open>status\<close> argument stores a device whose status is the string \<^verbatim>\<open>device\<close>,
  which is none of \<^verbatim>\<open>unknown\<close>, \<^verbatim>\<open>connecting\<close>, \<^verbatim>\<open>connected\<close>,
  \<^verbatim>\<open>disconnected\<close>.  The device is stored before the listeners run, so this holds
  however the round ends.
\<close>

theorem module_set_current_device_default_status:
  "(case module_set_current_device run self w s n m None of
      (x, self', w', cs) \<Rightarrow>
        get_current_device self' = Some \<lparr>serial = s, name = n, model = m, status = ''device''\<rparr>)
   \<and> ''device'' \<notin> spec_status_values"
proof -
  let ?d = "\<lparr>serial = s, name = n, model = m, status = ''device''\<rparr>"
  let ?s1 = "self\<lparr>current_device := Some ?d,
                    logged := logged self @ [(INFO, msg_set_device @ serial ?d)]\<rparr>"
  obtain x self' w' cs where n: "notify run (Some ?d) (device_listeners ?s1) ?s1 w = (x, self', w', cs)"
    by (cases "notify run (Some ?d) (device_listeners ?s1) ?s1 w") auto
  from notify_fixed [OF n] have "current_device self' = Some ?d" by simp
  with n have "(case module_set_current_device run self w s n m None of
      (x, self', w', cs) \<Rightarrow> get_current_device self' = Some ?d)"
    by (simp add: module_set_current_device_def set_current_device_def DeviceInfo_def
         get_current_device_def)
  moreover have "''device'' \<notin> spec_status_values"
    by (simp add: spec_status_values_def)
  ultimately show ?thesis by simp
qed

text \<open>The same with a listener that raises \<^verbatim>\<open>KeyboardInterrupt\<close>.\<close>

theorem module_set_current_device_default_status_witness:
  "get_current_device (fst (snd (module_set_current_device (first_raises (Raised KeyboardInterrupt []))
       example_registry 0 ''192.168.1.20:5555'' None None None)))
     = Some \<lparr>serial = ''192.168.1.20:5555'', name = None, model = None, status = ''device''\<rparr>"
  using module_set_current_device_default_status [where run = "first_raises (Raised KeyboardInterrupt [])"
      and self = example_registry and w = 0 and s = "''192.168.1.20:5555''" and n = None and m = None]
  by (simp add: case_prod_beta)

end
